theory Spec2Isabelle
  imports Complex_Main
begin

section \<open>Data model\<close>

text \<open>
  The embedding follows \<^verbatim>\<open>src/core/OpenRouterClient.ts\<close>. JavaScript strings are
  modelled as \<^typ>\<open>string\<close>; the code only concatenates them, tests them for emptiness,
  tests a prefix (the anchored regular expressions) and searches a substring
  (\<^verbatim>\<open>String.prototype.includes\<close>). JavaScript numbers that the client handles
  (temperature, token limits) are modelled as rationals: the client passes them through
  unchanged or computes \<^verbatim>\<open>Math.floor(limit * 0.75)\<close> on the eight integer limits
  of its table, where the binary floating point product is exact.
\<close>

type_synonym number = rat

text \<open>\<^verbatim>\<open>interface OpenRouterConfig\<close> of \<^verbatim>\<open>types/config.ts\<close>.\<close>

record OpenRouterConfig =
  apiKey :: string
  baseURL :: string
  model :: string

text \<open>\<^verbatim>\<open>type ServiceType\<close> of \<^verbatim>\<open>types/index.ts\<close>, a union of five string literals.\<close>

datatype ServiceType = MockGenerator | CodeGenerator | Translation | Documentation | Custom

text \<open>The string a service type is at run time, as a template literal interpolates it.\<close>

fun serviceTypeName :: "ServiceType \<Rightarrow> string" where
  "serviceTypeName MockGenerator = ''mockGenerator''"
| "serviceTypeName CodeGenerator = ''codeGenerator''"
| "serviceTypeName Translation = ''translation''"
| "serviceTypeName Documentation = ''documentation''"
| "serviceTypeName Custom = ''custom''"

text \<open>
  The two private fields of \<^verbatim>\<open>class OpenRouterClient\<close>, as one synchronous section
  of a method reads them.
\<close>

record client =
  config :: OpenRouterConfig
  serviceType :: ServiceType

text \<open>
  \<^verbatim>\<open>process.env\<close>: a dictionary from variable names to strings; a variable that is
  not set reads as \<^verbatim>\<open>undefined\<close> (\<^term>\<open>None\<close>).
\<close>

type_synonym env = "(string \<times> string) list"

definition getenv :: "env \<Rightarrow> string \<Rightarrow> string option" where
  "getenv e k = map_of e k"

text \<open>
  The \<^verbatim>\<open>options\<close> argument of \<^verbatim>\<open>generate\<close>: every field is optional, and
  \<^term>\<open>None\<close> stands for a field that is \<^verbatim>\<open>undefined\<close> (or \<^verbatim>\<open>null\<close>).
\<close>

record GenerateOptions =
  systemPrompt :: "string option"
  temperature :: "number option"
  maxTokens :: "number option"
  forceJson :: "bool option"
  model :: "string option"

text \<open>\<^verbatim>\<open>APIMessage\<close>, \<^verbatim>\<open>ResponseFormat\<close> and \<^verbatim>\<open>APIRequest\<close> of \<^verbatim>\<open>types/api.ts\<close>,
  with the fields that \<^verbatim>\<open>generate\<close> sets.\<close>

datatype Role = System | User | Assistant

record APIMessage =
  role :: Role
  content :: string

datatype ResponseFormat = Text | Json_object

record APIRequest =
  model :: string
  messages :: "APIMessage list"
  temperature :: number
  max_tokens :: number
  response_format :: "ResponseFormat option"

section \<open>Strings\<close>

text \<open>\<^verbatim>\<open>/^p/.test(s)\<close> for a pattern \<open>p\<close> of literal characters: \<open>s\<close> starts with \<open>p\<close>.\<close>

fun startsWith :: "string \<Rightarrow> string \<Rightarrow> bool" where
  "startsWith s [] = True"
| "startsWith [] (p # ps) = False"
| "startsWith (c # cs) (p # ps) = (c = p \<and> startsWith cs ps)"

text \<open>\<^verbatim>\<open>s.includes(sub)\<close>: \<open>sub\<close> occurs in \<open>s\<close> at some position.\<close>

fun str_includes :: "string \<Rightarrow> string \<Rightarrow> bool" where
  "str_includes [] sub = (sub = [])"
| "str_includes (c # cs) sub = (startsWith (c # cs) sub \<or> str_includes cs sub)"

text \<open>
  JavaScript truthiness of an optional string: \<^verbatim>\<open>undefined\<close> and the empty string
  are falsy. \<open>truthy_str v\<close> is \<open>Some s\<close> when \<open>v\<close> is the truthy string \<open>s\<close>.
\<close>

fun truthy_str :: "string option \<Rightarrow> string option" where
  "truthy_str None = None"
| "truthy_str (Some s) = (if s = [] then None else Some s)"

section \<open>Service profile resolution\<close>

fun getServiceKey :: "client \<Rightarrow> string" where
  "getServiceKey c =
     (case serviceType c of
        MockGenerator \<Rightarrow> ''MOCK_GENERATOR''
      | CodeGenerator \<Rightarrow> ''CODE_GENERATOR''
      | Translation \<Rightarrow> ''TRANSLATION''
      | Documentation \<Rightarrow> ''DOCUMENTATION''
      | Custom \<Rightarrow> ''DEFAULT'')"

definition serviceModelKey :: "client \<Rightarrow> string" where
  "serviceModelKey c = ''OPENROUTER_'' @ getServiceKey c @ ''_MODEL''"

definition getModelForService :: "client \<Rightarrow> env \<Rightarrow> string" where
  "getModelForService c e =
     (let serviceModel = getenv e (serviceModelKey c) in
      case truthy_str serviceModel of
        Some m \<Rightarrow> m
      | None \<Rightarrow>
          (case truthy_str (getenv e ''OPENROUTER_DEFAULT_MODEL'') of
             Some m \<Rightarrow> m
           | None \<Rightarrow> OpenRouterConfig.model (config c)))"

definition jsonCapablePatterns :: "string list" where
  "jsonCapablePatterns =
     [''openai/'', ''gpt-'', ''nitro'', ''anthropic/claude-3'', ''google/gemini'']"

text \<open>\<^verbatim>\<open>Array.prototype.some\<close>.\<close>

fun array_some :: "('a \<Rightarrow> bool) \<Rightarrow> 'a list \<Rightarrow> bool" where
  "array_some P [] = False"
| "array_some P (x # xs) = (P x \<or> array_some P xs)"

definition supportsJsonMode :: "string \<Rightarrow> bool" where
  "supportsJsonMode modelId =
     array_some (\<lambda>pattern. startsWith modelId pattern) jsonCapablePatterns"

text \<open>The parameter \<^verbatim>\<open>forceJson: boolean = false\<close> takes its default when the argument
  is \<^verbatim>\<open>undefined\<close>.\<close>

definition getSystemPromptForService :: "client \<Rightarrow> bool option \<Rightarrow> string" where
  "getSystemPromptForService c forceJsonArg =
     (let forceJson = (case forceJsonArg of None \<Rightarrow> False | Some b \<Rightarrow> b) in
      case serviceType c of
        MockGenerator \<Rightarrow>
          (if forceJson
           then ''You are a mock data generator. Generate realistic mock data based on the provided schema and examples. You MUST return only valid JSON. Do not include any markdown formatting, code blocks, or explanations. The response must be parseable JSON.''
           else ''You are a mock data generator. Generate realistic mock data based on the provided schema and examples. Return only valid JSON without markdown formatting or explanations.'')
      | CodeGenerator \<Rightarrow> ''You are a code generator assistant. Generate clean, well-structured code following best practices. Include appropriate comments and follow the existing code style.''
      | Translation \<Rightarrow> ''You are a translation assistant. Translate text accurately while preserving technical terms and context. Return only the translated text without explanations.''
      | Documentation \<Rightarrow> ''You are a documentation assistant. Create clear, comprehensive documentation that is well-structured and easy to understand. Include examples where appropriate.''
      | Custom \<Rightarrow> ''You are an AI assistant. Provide helpful and accurate responses.'')"

definition getTemperatureForService :: "client \<Rightarrow> number" where
  "getTemperatureForService c =
     (case serviceType c of
        MockGenerator \<Rightarrow> 0.7
      | CodeGenerator \<Rightarrow> 0.3
      | Translation \<Rightarrow> 0.1
      | Documentation \<Rightarrow> 0.4
      | Custom \<Rightarrow> 0.5)"

definition getTokenLimitByService :: "client \<Rightarrow> number \<Rightarrow> number \<Rightarrow> number" where
  "getTokenLimitByService c highLimit defaultLimit =
     (case serviceType c of
        MockGenerator \<Rightarrow> highLimit
      | CodeGenerator \<Rightarrow> of_int \<lfloor>highLimit * 0.75\<rfloor>
      | Translation \<Rightarrow> of_int \<lfloor>defaultLimit * 0.75\<rfloor>
      | Documentation \<Rightarrow> highLimit
      | Custom \<Rightarrow> defaultLimit)"

definition getMaxTokensForService :: "client \<Rightarrow> env \<Rightarrow> number" where
  "getMaxTokensForService c e =
     (let model = getModelForService c e in
      if str_includes model ''claude-3'' then getTokenLimitByService c 8000 4000
      else if str_includes model ''gpt-4'' then getTokenLimitByService c 6000 3000
      else if str_includes model ''gpt-3.5'' then getTokenLimitByService c 3000 2000
      else if str_includes model ''gemini'' then getTokenLimitByService c 7000 3500
      else getTokenLimitByService c 4000 2000)"

section \<open>Assembling the request\<close>

text \<open>
  \<^verbatim>\<open>options?.f\<close> is \<^verbatim>\<open>undefined\<close> when \<^verbatim>\<open>options\<close> itself is, and the field
  otherwise.
\<close>

definition opt_field :: "(GenerateOptions \<Rightarrow> 'a option) \<Rightarrow> GenerateOptions option \<Rightarrow> 'a option" where
  "opt_field f options = (case options of None \<Rightarrow> None | Some os \<Rightarrow> f os)"

text \<open>
  The first part of \<^verbatim>\<open>generate\<close>, up to the call of \<^verbatim>\<open>fetch\<close>: \<open>||\<close> takes its
  right operand when the left one is falsy (\<^verbatim>\<open>undefined\<close> or the empty string),
  \<open>??\<close> only when the left one is \<^verbatim>\<open>undefined\<close> or \<^verbatim>\<open>null\<close>.
\<close>

definition requestBody :: "client \<Rightarrow> env \<Rightarrow> string \<Rightarrow> GenerateOptions option \<Rightarrow> APIRequest" where
  "requestBody c e prompt options =
     (let model = (case truthy_str (opt_field GenerateOptions.model options) of
                     Some m \<Rightarrow> m
                   | None \<Rightarrow> getModelForService c e);
          systemPrompt = (case truthy_str (opt_field systemPrompt options) of
                            Some p \<Rightarrow> p
                          | None \<Rightarrow> getSystemPromptForService c (opt_field forceJson options));
          temperature = (case opt_field GenerateOptions.temperature options of
                           Some t \<Rightarrow> t
                         | None \<Rightarrow> getTemperatureForService c);
          maxTokens = (case opt_field maxTokens options of
                         Some n \<Rightarrow> n
                       | None \<Rightarrow> getMaxTokensForService c e)
      in \<lparr> APIRequest.model = model,
           messages = [\<lparr> role = System, content = systemPrompt \<rparr>,
                       \<lparr> role = User, content = prompt \<rparr>],
           APIRequest.temperature = temperature,
           max_tokens = maxTokens,
           response_format =
             (if opt_field forceJson options = Some True \<and> supportsJsonMode model
              then Some Json_object else None) \<rparr>)"

section \<open>The run-time environment\<close>

text \<open>
  What a response body parses to: a JavaScript value built by \<^verbatim>\<open>JSON.parse\<close>. An
  object is the list of its own properties in enumeration order. The numbers of a
  response are kept abstract (\<open>'n\<close>); the client never computes with them.
\<close>

datatype 'n json =
    JNull
  | JBool bool
  | JNumber 'n
  | JString string
  | JArray "'n json list"
  | JObject "(string \<times> 'n json) list"

text \<open>
  A value that is thrown or that rejects a promise. The handler of \<^verbatim>\<open>generate\<close> only
  asks whether it is an \<^verbatim>\<open>Error\<close>, and then for its message.
\<close>

datatype thrown = ErrorObject string | OtherValue

datatype nullish = Undefined | Null

text \<open>
  A \<^verbatim>\<open>Response\<close> of the Fetch API, as far as the client looks at it: the status, the
  status text, and what \<^verbatim>\<open>response.json()\<close> settles to (a rejection when the body
  is not JSON).
\<close>

record 'n Response =
  status :: nat
  statusText :: string
  json_result :: "thrown + 'n json"

text \<open>\<^verbatim>\<open>response.ok\<close> is defined by the Fetch standard: the status is in 200..299.\<close>

definition ok :: "'n Response \<Rightarrow> bool" where
  "ok response = (200 \<le> status response \<and> status response \<le> 299)"

datatype 'n fetch_outcome = Rejected thrown | Resolved "'n Response"

text \<open>The arguments of the one call of \<^verbatim>\<open>fetch\<close>; the body is kept before
  \<^verbatim>\<open>JSON.stringify\<close>.\<close>

record fetch_call =
  url :: string
  http_method :: string
  headers :: "(string \<times> string) list"
  body :: APIRequest

text \<open>
  What the JavaScript engine and the network provide and the repository does not define:
  the outcome of \<^verbatim>\<open>fetch\<close>, the text of a number in \<^verbatim>\<open>JSON.stringify\<close>, whether a
  number is falsy (zero or NaN), and the message of the \<^verbatim>\<open>TypeError\<close> for reading a
  property of \<^verbatim>\<open>undefined\<close> or \<^verbatim>\<open>null\<close>.
\<close>

record 'n host =
  fetch :: "fetch_call \<Rightarrow> 'n fetch_outcome"
  number_text :: "'n \<Rightarrow> string"
  number_falsy :: "'n \<Rightarrow> bool"
  type_error_text :: "nullish \<Rightarrow> string \<Rightarrow> string"

subsection \<open>Numbers and JSON as text\<close>

definition digit_char :: "nat \<Rightarrow> char" where
  "digit_char d = ''0123456789'' ! (d mod 10)"

text \<open>The decimal text of a non-negative integer, as a template literal renders the
  status.\<close>

fun show_nat :: "nat \<Rightarrow> string" where
  "show_nat n = (if n < 10 then [digit_char n] else show_nat (n div 10) @ [digit_char (n mod 10)])"

definition hex_char :: "nat \<Rightarrow> char" where
  "hex_char d = ''0123456789abcdef'' ! (d mod 16)"

text \<open>\<^verbatim>\<open>QuoteJSONString\<close> of ECMAScript, on one character and on a string.\<close>

definition json_escape :: "char \<Rightarrow> string" where
  "json_escape ch =
     (let n = (of_char ch :: nat) in
      if n = 0x22 then [CHR 0x5C, CHR 0x22]
      else if n = 0x5C then [CHR 0x5C, CHR 0x5C]
      else if n = 0x08 then [CHR 0x5C, CHR ''b'']
      else if n = 0x0C then [CHR 0x5C, CHR ''f'']
      else if n = 0x0A then [CHR 0x5C, CHR ''n'']
      else if n = 0x0D then [CHR 0x5C, CHR ''r'']
      else if n = 0x09 then [CHR 0x5C, CHR ''t'']
      else if n < 0x20 then [CHR 0x5C, CHR ''u'', CHR ''0'', CHR ''0'', hex_char (n div 16), hex_char (n mod 16)]
      else [ch])"

definition json_quote :: "string \<Rightarrow> string" where
  "json_quote s = [CHR 0x22] @ concat (map json_escape s) @ [CHR 0x22]"

fun join_comma :: "string list \<Rightarrow> string" where
  "join_comma [] = []"
| "join_comma [x] = x"
| "join_comma (x # y # ys) = x @ '','' @ join_comma (y # ys)"

text \<open>\<^verbatim>\<open>JSON.stringify(v)\<close> without indentation, on a value that came from \<^verbatim>\<open>JSON.parse\<close>.\<close>

primrec JSON_stringify :: "('n \<Rightarrow> string) \<Rightarrow> 'n json \<Rightarrow> string" where
  "JSON_stringify num JNull = ''null''"
| "JSON_stringify num (JBool b) = (if b then ''true'' else ''false'')"
| "JSON_stringify num (JNumber n) = num n"
| "JSON_stringify num (JString s) = json_quote s"
| "JSON_stringify num (JArray xs) = ''['' @ join_comma (map (JSON_stringify num) xs) @ '']''"
| "JSON_stringify num (JObject kvs) =
     ''{'' @ join_comma (map (\<lambda>(k, t). json_quote k @ '':'' @ t)
                           (map (map_prod id (JSON_stringify num)) kvs)) @ ''}''"

subsection \<open>Reading properties\<close>

text \<open>
  The value of \<open>v.name\<close> for a value \<open>v\<close> that is neither \<^verbatim>\<open>undefined\<close> nor
  \<^verbatim>\<open>null\<close>, at the names the client reads (\<^verbatim>\<open>choices\<close>, \<^verbatim>\<open>message\<close>,
  \<^verbatim>\<open>content\<close>): only an object can have such a property; arrays, strings, numbers and
  booleans have none of these names, neither their own nor inherited.
\<close>

fun named_property :: "'n json \<Rightarrow> string \<Rightarrow> 'n json option" where
  "named_property (JObject kvs) name = map_of kvs name"
| "named_property _ name = None"

text \<open>The value of \<open>v[i]\<close> for such a \<open>v\<close>: an element of an array, a character of a
  string, the property named by the decimal text of \<open>i\<close> of an object.\<close>

fun indexed_property :: "'n json \<Rightarrow> nat \<Rightarrow> 'n json option" where
  "indexed_property (JArray xs) i = (if i < length xs then Some (xs ! i) else None)"
| "indexed_property (JString s) i = (if i < length s then Some (JString [s ! i]) else None)"
| "indexed_property (JObject kvs) i = map_of kvs (show_nat i)"
| "indexed_property _ i = None"

text \<open>\<open>v.name\<close> and \<open>v[i]\<close> throw a \<^verbatim>\<open>TypeError\<close> on \<^verbatim>\<open>undefined\<close> and \<^verbatim>\<open>null\<close>;
  \<open>v?.name\<close> is \<^verbatim>\<open>undefined\<close> there.\<close>

fun get_member :: "'n host \<Rightarrow> 'n json option \<Rightarrow> string \<Rightarrow> thrown + 'n json option" where
  "get_member h None name = Inl (ErrorObject (type_error_text h Undefined name))"
| "get_member h (Some JNull) name = Inl (ErrorObject (type_error_text h Null name))"
| "get_member h (Some j) name = Inr (named_property j name)"

fun get_element :: "'n host \<Rightarrow> 'n json option \<Rightarrow> nat \<Rightarrow> thrown + 'n json option" where
  "get_element h None i = Inl (ErrorObject (type_error_text h Undefined (show_nat i)))"
| "get_element h (Some JNull) i = Inl (ErrorObject (type_error_text h Null (show_nat i)))"
| "get_element h (Some j) i = Inr (indexed_property j i)"

fun optional_member :: "'n json option \<Rightarrow> string \<Rightarrow> 'n json option" where
  "optional_member None name = None"
| "optional_member (Some JNull) name = None"
| "optional_member (Some j) name = named_property j name"

text \<open>JavaScript truthiness of a value.\<close>

fun truthy :: "'n host \<Rightarrow> 'n json option \<Rightarrow> bool" where
  "truthy h None = False"
| "truthy h (Some JNull) = False"
| "truthy h (Some (JBool b)) = b"
| "truthy h (Some (JNumber n)) = (\<not> number_falsy h n)"
| "truthy h (Some (JString s)) = (s \<noteq> [])"
| "truthy h (Some (JArray xs)) = True"
| "truthy h (Some (JObject kvs)) = True"

section \<open>The generation client\<close>

definition fetchCall :: "client \<Rightarrow> env \<Rightarrow> string \<Rightarrow> GenerateOptions option \<Rightarrow> fetch_call" where
  "fetchCall c e prompt options =
     \<lparr> url = baseURL (config c) @ ''/chat/completions'',
       http_method = ''POST'',
       headers =
         [(''Authorization'', ''Bearer '' @ apiKey (config c)),
          (''Content-Type'', ''application/json''),
          (''HTTP-Referer'', ''https://github.com/bramato/openrouter-agents''),
          (''X-Title'', ''OpenRouter Agents '' @ serviceTypeName (serviceType c))],
       body = requestBody c e prompt options \<rparr>"

text \<open>\<^verbatim>\<open>data.choices[0]?.message?.content || ''\<close>.\<close>

definition first_content :: "'n host \<Rightarrow> 'n json \<Rightarrow> thrown + 'n json" where
  "first_content h data =
     (case get_member h (Some data) ''choices'' of
        Inl t \<Rightarrow> Inl t
      | Inr choices \<Rightarrow>
          (case get_element h choices 0 of
             Inl t \<Rightarrow> Inl t
           | Inr first \<Rightarrow>
               (let content = optional_member (optional_member first ''message'') ''content''
                in case content of
                     Some j \<Rightarrow> Inr (if truthy h content then j else JString [])
                   | None \<Rightarrow> Inr (JString []))))"

text \<open>The body of the \<^verbatim>\<open>try\<close> block: \<open>Inl\<close> is what it throws.\<close>

definition generate_try :: "'n host \<Rightarrow> client \<Rightarrow> env \<Rightarrow> string \<Rightarrow> GenerateOptions option \<Rightarrow> thrown + 'n json" where
  "generate_try h c e prompt options =
     (case fetch h (fetchCall c e prompt options) of
        Rejected t \<Rightarrow> Inl t
      | Resolved response \<Rightarrow>
          if \<not> ok response then
            (let errorData = (case json_result response of Inl t \<Rightarrow> JObject [] | Inr j \<Rightarrow> j)
             in Inl (ErrorObject (''OpenRouter API error: '' @ show_nat (status response) @ '' ''
                       @ statusText response @ '' - '' @ JSON_stringify (number_text h) errorData)))
          else
            (case json_result response of
               Inl t \<Rightarrow> Inl t
             | Inr data \<Rightarrow> first_content h data))"

text \<open>
  \<^verbatim>\<open>generate\<close>: \<open>Inr\<close> is the value the promise resolves to, \<open>Inl\<close> the message of the
  \<^verbatim>\<open>Error\<close> it rejects with.
\<close>

definition generate :: "'n host \<Rightarrow> client \<Rightarrow> env \<Rightarrow> string \<Rightarrow> GenerateOptions option \<Rightarrow> string + 'n json" where
  "generate h c e prompt options =
     (case generate_try h c e prompt options of
        Inr v \<Rightarrow> Inr v
      | Inl error \<Rightarrow>
          Inl (''Failed to generate with '' @ serviceTypeName (serviceType c) @ '': ''
               @ (case error of ErrorObject message \<Rightarrow> message | OtherValue \<Rightarrow> ''Unknown error'')))"

section \<open>Configuration objects and references\<close>

text \<open>\<^verbatim>\<open>static getDefaultConfig()\<close>, reading \<^verbatim>\<open>process.env\<close>.\<close>

definition getDefaultConfig :: "env \<Rightarrow> OpenRouterConfig" where
  "getDefaultConfig e =
     \<lparr> apiKey = (case truthy_str (getenv e ''OPENROUTER_API_KEY'') of Some k \<Rightarrow> k | None \<Rightarrow> []),
       baseURL = ''https://openrouter.ai/api/v1'',
       OpenRouterConfig.model =
         (case truthy_str (getenv e ''OPENROUTER_DEFAULT_MODEL'') of
            Some m \<Rightarrow> m
          | None \<Rightarrow> ''anthropic/claude-3.5-sonnet'') \<rparr>"

text \<open>
  A configuration is a JavaScript object, and the client holds a reference to one. The
  store maps references to objects; \<open>next_ref\<close> is the first reference not yet
  allocated.
\<close>

type_synonym ref = nat

record store =
  objects :: "ref \<Rightarrow> OpenRouterConfig"
  next_ref :: ref

text \<open>A client instance: \<^verbatim>\<open>this.config\<close> is a reference, \<^verbatim>\<open>this.serviceType\<close> a
  string.\<close>

record client_object =
  config_at :: ref
  service :: ServiceType

text \<open>The fields as a method reads them through \<^verbatim>\<open>this\<close>.\<close>

definition fields_of :: "store \<Rightarrow> client_object \<Rightarrow> client" where
  "fields_of s this = \<lparr> config = objects s (config_at this), serviceType = service this \<rparr>"

text \<open>An object literal allocates a new object.\<close>

definition allocate :: "store \<Rightarrow> OpenRouterConfig \<Rightarrow> store \<times> ref" where
  "allocate s obj =
     (s\<lparr> objects := (objects s)(next_ref s := obj), next_ref := Suc (next_ref s) \<rparr>, next_ref s)"

text \<open>The constructor stores the reference it is given.\<close>

definition new_client :: "ref \<Rightarrow> ServiceType \<Rightarrow> client_object" where
  "new_client cfg t = \<lparr> config_at = cfg, service = t \<rparr>"

text \<open>\<^verbatim>\<open>getConfig()\<close> returns \<^verbatim>\<open>{ ...this.config }\<close>: a new object with the same fields.\<close>

definition getConfig :: "store \<Rightarrow> client_object \<Rightarrow> store \<times> ref" where
  "getConfig s this = allocate s (objects s (config_at this))"

definition setServiceType :: "client_object \<Rightarrow> ServiceType \<Rightarrow> client_object" where
  "setServiceType this t = this\<lparr> service := t \<rparr>"

definition getServiceType :: "client_object \<Rightarrow> ServiceType" where
  "getServiceType this = service this"

text \<open>What a caller can do with a reference to a configuration: assign to a field.\<close>

datatype field_write = WriteApiKey string | WriteBaseURL string | WriteModel string

fun write_field :: "store \<Rightarrow> ref \<Rightarrow> field_write \<Rightarrow> store" where
  "write_field s r (WriteApiKey v) =
     s\<lparr> objects := (objects s)(r := (objects s r)\<lparr> apiKey := v \<rparr>) \<rparr>"
| "write_field s r (WriteBaseURL v) =
     s\<lparr> objects := (objects s)(r := (objects s r)\<lparr> baseURL := v \<rparr>) \<rparr>"
| "write_field s r (WriteModel v) =
     s\<lparr> objects := (objects s)(r := (objects s r)\<lparr> OpenRouterConfig.model := v \<rparr>) \<rparr>"

fun write_fields :: "store \<Rightarrow> ref \<Rightarrow> field_write list \<Rightarrow> store" where
  "write_fields s r [] = s"
| "write_fields s r (w # ws) = write_fields (write_field s r w) r ws"

section \<open>A concrete host\<close>

text \<open>
  For evaluating the client on concrete inputs: a host whose network answers every call
  with one given outcome, whose response numbers are integers, and whose \<^verbatim>\<open>TypeError\<close>
  messages are worded as V8 words them.
\<close>

definition answer_with :: "'n fetch_outcome \<Rightarrow> fetch_call \<Rightarrow> 'n fetch_outcome" where
  "answer_with outcome call = outcome"

definition show_int :: "int \<Rightarrow> string" where
  "show_int i = (if i < 0 then ''-'' @ show_nat (nat (- i)) else show_nat (nat i))"

definition is_zero :: "int \<Rightarrow> bool" where
  "is_zero i = (i = 0)"

fun v8_type_error :: "nullish \<Rightarrow> string \<Rightarrow> string" where
  "v8_type_error Undefined name =
     ''Cannot read properties of undefined (reading '' @ [CHR 0x27] @ name @ [CHR 0x27] @ '')''"
| "v8_type_error Null name =
     ''Cannot read properties of null (reading '' @ [CHR 0x27] @ name @ [CHR 0x27] @ '')''"

definition example_host :: "int fetch_outcome \<Rightarrow> int host" where
  "example_host outcome =
     \<lparr> fetch = answer_with outcome, number_text = show_int, number_falsy = is_zero,
       type_error_text = v8_type_error \<rparr>"

definition example_client :: "ServiceType \<Rightarrow> client" where
  "example_client t =
     \<lparr> config = \<lparr> apiKey = ''sk-or-test'', baseURL = ''https://openrouter.ai/api/v1'',
                    OpenRouterConfig.model = ''anthropic/claude-3.5-sonnet'' \<rparr>,
       serviceType = t \<rparr>"

definition no_options :: GenerateOptions where
  "no_options = \<lparr> systemPrompt = None, GenerateOptions.temperature = None, maxTokens = None,
                   forceJson = None, GenerateOptions.model = None \<rparr>"

text \<open>Two responses: a 429 with a structured error body, and a 200 whose list of
  choices is empty.\<close>

definition rate_limited :: "int Response" where
  "rate_limited =
     \<lparr> status = 429, statusText = ''Too Many Requests'',
       json_result =
         Inr (JObject [(''error'', JObject [(''message'', JString ''rate limited'')])]) \<rparr>"

definition empty_choices :: "int Response" where
  "empty_choices =
     \<lparr> status = 200, statusText = ''OK'',
       json_result = Inr (JObject [(''choices'', JArray [])]) \<rparr>"

text \<open>A 200 whose first choice carries the content \<^verbatim>\<open>Hello\<close>.\<close>

definition hello_response :: "int Response" where
  "hello_response =
     \<lparr> status = 200, statusText = ''OK'',
       json_result =
         Inr (JObject [(''choices'',
                JArray [JObject [(''message'',
                          JObject [(''role'', JString ''assistant''),
                                   (''content'', JString ''Hello'')])]])]) \<rparr>"

text \<open>A store with one configuration object, at reference 0.\<close>

definition example_store :: store where
  "example_store = \<lparr> objects = (\<lambda>r. config (example_client Custom)), next_ref = 1 \<rparr>"

section \<open>Model resolution\<close>

lemma requestBody_model:
  "APIRequest.model (requestBody c e prompt options) =
     (case truthy_str (opt_field GenerateOptions.model options) of
        Some m \<Rightarrow> m | None \<Rightarrow> getModelForService c e)"
  by (simp add: requestBody_def Let_def)

text \<open>
  Claim C1, as stated: an environment override determines the model of the wire request
  even when the caller passed an explicit model. It fails: with
  \<^verbatim>\<open>OPENROUTER_DEFAULT_MODEL=openai/gpt-4\<close> set and an explicit
  \<^verbatim>\<open>options.model\<close>, the request carries the explicit model.
\<close>

theorem C1_explicit_model_wins_over_env:
  "getenv [(''OPENROUTER_DEFAULT_MODEL'', ''openai/gpt-4'')] ''OPENROUTER_DEFAULT_MODEL''
     = Some ''openai/gpt-4''
   \<and> APIRequest.model
        (requestBody
           \<lparr> config = \<lparr> apiKey = ''k'', baseURL = ''https://openrouter.ai/api/v1'',
                        OpenRouterConfig.model = ''anthropic/claude-3.5-sonnet'' \<rparr>,
             serviceType = Custom \<rparr>
           [(''OPENROUTER_DEFAULT_MODEL'', ''openai/gpt-4'')]
           ''hello''
           (Some \<lparr> systemPrompt = None, GenerateOptions.temperature = None, maxTokens = None,
                   forceJson = None,
                   GenerateOptions.model = Some ''meta-llama/llama-3.1-8b-instruct'' \<rparr>))
       = ''meta-llama/llama-3.1-8b-instruct''
   \<and> ''meta-llama/llama-3.1-8b-instruct'' \<noteq> ''openai/gpt-4''"
  by (simp add: requestBody_model opt_field_def getenv_def)

text \<open>
  Claim C1, amended: in \<^verbatim>\<open>generate\<close> a non-empty explicit \<^verbatim>\<open>options.model\<close> is the
  model of the wire request, whatever the environment holds. Without one (absent or
  empty), the category-specific variable is used when it is set and not empty, then
  \<^verbatim>\<open>OPENROUTER_DEFAULT_MODEL\<close> when it is set and not empty, and the configured model
  only when neither is.
\<close>

theorem C1_model_resolution_order:
  "(opt_field GenerateOptions.model options = Some m \<and> m \<noteq> [] \<longrightarrow>
      APIRequest.model (requestBody c e prompt options) = m)
   \<and> ((opt_field GenerateOptions.model options = None
          \<or> opt_field GenerateOptions.model options = Some [])
        \<and> getenv e (serviceModelKey c) = Some v \<and> v \<noteq> [] \<longrightarrow>
      APIRequest.model (requestBody c e prompt options) = v)
   \<and> ((opt_field GenerateOptions.model options = None
          \<or> opt_field GenerateOptions.model options = Some [])
        \<and> (getenv e (serviceModelKey c) = None \<or> getenv e (serviceModelKey c) = Some [])
        \<and> getenv e ''OPENROUTER_DEFAULT_MODEL'' = Some d \<and> d \<noteq> [] \<longrightarrow>
      APIRequest.model (requestBody c e prompt options) = d)
   \<and> ((opt_field GenerateOptions.model options = None
          \<or> opt_field GenerateOptions.model options = Some [])
        \<and> (getenv e (serviceModelKey c) = None \<or> getenv e (serviceModelKey c) = Some [])
        \<and> (getenv e ''OPENROUTER_DEFAULT_MODEL'' = None
             \<or> getenv e ''OPENROUTER_DEFAULT_MODEL'' = Some []) \<longrightarrow>
      APIRequest.model (requestBody c e prompt options) = OpenRouterConfig.model (config c))"
  by (auto simp add: requestBody_model getModelForService_def Let_def)

theorem C1_model_resolution_order_witness:
  "APIRequest.model (requestBody (example_client Translation)
       [(''OPENROUTER_TRANSLATION_MODEL'', ''google/gemini-pro''),
        (''OPENROUTER_DEFAULT_MODEL'', ''openai/gpt-4'')]
       ''hello'' (Some (no_options\<lparr> GenerateOptions.model := Some ''mistral/mixtral'' \<rparr>)))
     = ''mistral/mixtral''
   \<and> APIRequest.model (requestBody (example_client Translation)
       [(''OPENROUTER_TRANSLATION_MODEL'', ''google/gemini-pro''),
        (''OPENROUTER_DEFAULT_MODEL'', ''openai/gpt-4'')]
       ''hello'' (Some (no_options\<lparr> GenerateOptions.model := Some [] \<rparr>)))
     = ''google/gemini-pro''
   \<and> APIRequest.model (requestBody (example_client Translation)
       [(''OPENROUTER_DEFAULT_MODEL'', ''openai/gpt-4'')] ''hello'' None) = ''openai/gpt-4''
   \<and> APIRequest.model (requestBody (example_client Translation) [] ''hello'' None)
       = ''anthropic/claude-3.5-sonnet''"
  using
    C1_model_resolution_order
      [where options = "Some (no_options\<lparr> GenerateOptions.model := Some ''mistral/mixtral'' \<rparr>)"
        and m = "''mistral/mixtral''" and c = "example_client Translation" and prompt = "''hello''"
        and e = "[(''OPENROUTER_TRANSLATION_MODEL'', ''google/gemini-pro''),
                  (''OPENROUTER_DEFAULT_MODEL'', ''openai/gpt-4'')]"]
    C1_model_resolution_order
      [where options = "Some (no_options\<lparr> GenerateOptions.model := Some [] \<rparr>)"
        and v = "''google/gemini-pro''" and c = "example_client Translation"
        and prompt = "''hello''"
        and e = "[(''OPENROUTER_TRANSLATION_MODEL'', ''google/gemini-pro''),
                  (''OPENROUTER_DEFAULT_MODEL'', ''openai/gpt-4'')]"]
    C1_model_resolution_order
      [where options = None and d = "''openai/gpt-4''" and c = "example_client Translation"
        and prompt = "''hello''" and e = "[(''OPENROUTER_DEFAULT_MODEL'', ''openai/gpt-4'')]"]
    C1_model_resolution_order
      [where options = None and c = "example_client Translation" and prompt = "''hello''"
        and e = "[]"]
  by (simp add: opt_field_def no_options_def getenv_def serviceModelKey_def example_client_def)

section \<open>JSON mode\<close>

lemma startsWith_iff: "startsWith s p \<longleftrightarrow> (\<exists>q. s = p @ q)"
  by (induction s p rule: startsWith.induct) auto

lemma supportsJsonMode_iff:
  "supportsJsonMode m \<longleftrightarrow>
     (\<exists>q. m = ''openai/'' @ q \<or> m = ''gpt-'' @ q \<or> m = ''nitro'' @ q
         \<or> m = ''anthropic/claude-3'' @ q \<or> m = ''google/gemini'' @ q)"
  unfolding supportsJsonMode_def jsonCapablePatterns_def array_some.simps startsWith_iff
    ex_disj_distrib
  by (simp only: simp_thms)

text \<open>
  Claim C2: the body of the wire request has the field \<^verbatim>\<open>response_format\<close>, with the
  value \<^verbatim>\<open>{type: "json_object"}\<close>, exactly when \<^verbatim>\<open>forceJson\<close> is true and the
  resolved model (the one the request carries) matches the table of JSON-capable
  patterns; otherwise the field is absent.
\<close>

theorem C2_response_format_iff:
  "response_format (body (fetchCall c e prompt options)) =
     (if opt_field forceJson options = Some True
         \<and> supportsJsonMode (APIRequest.model (body (fetchCall c e prompt options)))
      then Some Json_object else None)"
  by (simp add: fetchCall_def requestBody_def Let_def)

theorem C2_response_format_iff_witness:
  "response_format (body (fetchCall (example_client Custom) [] ''p''
      (Some (no_options\<lparr> forceJson := Some True,
                           GenerateOptions.model := Some ''openai/gpt-4.1-nano'' \<rparr>))))
     = Some Json_object
   \<and> response_format (body (fetchCall (example_client Custom) [] ''p''
      (Some (no_options\<lparr> forceJson := Some True,
                           GenerateOptions.model := Some ''meta-llama/llama-3.1-8b-instruct:free'' \<rparr>))))
     = None
   \<and> response_format (body (fetchCall (example_client Custom) [] ''p''
      (Some (no_options\<lparr> forceJson := Some False,
                           GenerateOptions.model := Some ''openai/gpt-4.1-nano'' \<rparr>))))
     = None
   \<and> response_format (body (fetchCall (example_client Custom) [] ''p''
      (Some (no_options\<lparr> forceJson := Some False,
                           GenerateOptions.model := Some ''meta-llama/llama-3.1-8b-instruct:free'' \<rparr>))))
     = None"
  unfolding C2_response_format_iff
  by (simp add: fetchCall_def requestBody_model opt_field_def no_options_def
        supportsJsonMode_def jsonCapablePatterns_def)

section \<open>Token limits and temperature\<close>

text \<open>
  Claim C3: when the model that the resolution chain gives contains \<^verbatim>\<open>claude-3\<close>, the
  default token limit is 8000 for mock generation, 6000 for code generation, 3000 for
  translation, 8000 for documentation and 4000 for the custom category.
\<close>

theorem C3_claude3_token_limits:
  assumes "str_includes (getModelForService c e) ''claude-3''"
  shows "getMaxTokensForService c e =
     (case serviceType c of
        MockGenerator \<Rightarrow> 8000
      | CodeGenerator \<Rightarrow> 6000
      | Translation \<Rightarrow> 3000
      | Documentation \<Rightarrow> 8000
      | Custom \<Rightarrow> 4000)"
  using assms
  by (simp add: getMaxTokensForService_def getTokenLimitByService_def Let_def
        split: ServiceType.splits)

theorem C3_claude3_token_limits_witness:
  "str_includes (getModelForService (example_client CodeGenerator) []) ''claude-3''
   \<and> getMaxTokensForService (example_client CodeGenerator) [] = 6000"
proof -
  have h: "str_includes (getModelForService (example_client CodeGenerator) []) ''claude-3''"
    by (simp add: getModelForService_def getenv_def example_client_def)
  from C3_claude3_token_limits [OF h] h show ?thesis by (simp add: example_client_def)
qed

text \<open>
  Claim C4: the default temperature is 0.7 for mock generation, 0.3 for code generation,
  0.1 for translation, 0.4 for documentation and 0.5 for the custom category, whatever
  the configuration, the environment, the prompt and the other options are; it is the
  temperature of the wire request whenever the caller gives none.
\<close>

theorem C4_temperature_by_category:
  "getTemperatureForService c =
     (case serviceType c of
        MockGenerator \<Rightarrow> 7 / 10
      | CodeGenerator \<Rightarrow> 3 / 10
      | Translation \<Rightarrow> 1 / 10
      | Documentation \<Rightarrow> 4 / 10
      | Custom \<Rightarrow> 5 / 10)
   \<and> (opt_field GenerateOptions.temperature options = None \<longrightarrow>
        APIRequest.temperature (requestBody c e prompt options) =
          (case serviceType c of
             MockGenerator \<Rightarrow> 7 / 10
           | CodeGenerator \<Rightarrow> 3 / 10
           | Translation \<Rightarrow> 1 / 10
           | Documentation \<Rightarrow> 4 / 10
           | Custom \<Rightarrow> 5 / 10))"
  by (simp add: requestBody_def Let_def getTemperatureForService_def split: ServiceType.splits)

theorem C4_temperature_by_category_witness:
  "opt_field GenerateOptions.temperature
      (Some (no_options\<lparr> GenerateOptions.model := Some ''openai/gpt-4'' \<rparr>)) = None
   \<and> APIRequest.temperature (requestBody (example_client Translation)
        [(''OPENROUTER_DEFAULT_MODEL'', ''google/gemini-pro'')] ''hello''
        (Some (no_options\<lparr> GenerateOptions.model := Some ''openai/gpt-4'' \<rparr>))) = 1 / 10"
  using C4_temperature_by_category [where c = "example_client Translation"
      and options = "Some (no_options\<lparr> GenerateOptions.model := Some ''openai/gpt-4'' \<rparr>)"
      and e = "[(''OPENROUTER_DEFAULT_MODEL'', ''google/gemini-pro'')]" and prompt = "''hello''"]
  by (simp add: opt_field_def no_options_def example_client_def)

section \<open>Substrings\<close>

lemma startsWith_append: "startsWith (p @ q) p"
  by (induction p) simp_all

lemma str_includes_here: "str_includes (sub @ q) sub"
proof (cases "sub @ q")
  case Nil
  then show ?thesis by simp
next
  case (Cons a rest)
  have "startsWith (sub @ q) sub" by (rule startsWith_append)
  with Cons show ?thesis by simp
qed

lemma str_includes_append: "str_includes (p @ sub @ q) sub"
proof (induction p)
  case Nil
  show ?case using str_includes_here by simp
next
  case (Cons a p)
  then show ?case by simp
qed

lemma str_includes_split: "str_includes s sub \<Longrightarrow> \<exists>p q. s = p @ sub @ q"
proof (induction s)
  case Nil
  then show ?case by simp
next
  case (Cons c cs)
  from Cons.prems have "startsWith (c # cs) sub \<or> str_includes cs sub" by simp
  then show ?case
  proof
    assume "startsWith (c # cs) sub"
    then obtain q where "c # cs = sub @ q" unfolding startsWith_iff ..
    then have "c # cs = [] @ sub @ q" by simp
    then show ?thesis by blast
  next
    assume "str_includes cs sub"
    with Cons.IH obtain p q where "cs = p @ sub @ q" by blast
    then have "c # cs = (c # p) @ sub @ q" by simp
    then show ?thesis by blast
  qed
qed

lemma str_includes_iff: "str_includes s sub \<longleftrightarrow> (\<exists>p q. s = p @ sub @ q)"
  using str_includes_split str_includes_append by blast

lemma str_includes_trans:
  assumes "str_includes s t" and "str_includes t u"
  shows "str_includes s u"
proof -
  from assms(1) obtain p q where s: "s = p @ t @ q" using str_includes_split by blast
  from assms(2) obtain p' q' where t: "t = p' @ u @ q'" using str_includes_split by blast
  have "s = (p @ p') @ u @ (q' @ q)" by (simp add: s t)
  then show ?thesis using str_includes_append by metis
qed

section \<open>Failure status\<close>

text \<open>
  Claim C5: when the response has a status outside 200..299, \<^verbatim>\<open>generate\<close> fails with
  one error whose message contains the status code, the status text, the parsed error
  body as \<^verbatim>\<open>JSON.stringify\<close> writes it (the empty object when the body does not
  parse) and the name of the bound service type.
\<close>

theorem C5_error_message_on_failure_status:
  assumes "fetch h (fetchCall c e prompt options) = Resolved response"
    and "\<not> (200 \<le> status response \<and> status response \<le> 299)"
  shows "\<exists>msg. generate h c e prompt options = Inl msg
           \<and> str_includes msg (show_nat (status response))
           \<and> str_includes msg (statusText response)
           \<and> str_includes msg (JSON_stringify (number_text h)
                 (case json_result response of Inl t \<Rightarrow> JObject [] | Inr j \<Rightarrow> j))
           \<and> str_includes msg (serviceTypeName (serviceType c))"
proof -
  let ?name = "serviceTypeName (serviceType c)"
  let ?code = "show_nat (status response)"
  let ?data = "JSON_stringify (number_text h)
                 (case json_result response of Inl t \<Rightarrow> JObject [] | Inr j \<Rightarrow> j)"
  let ?head = "''Failed to generate with ''"
  let ?mid = "'': OpenRouter API error: ''"
  let ?msg = "?head @ ?name @ ?mid @ ?code @ '' '' @ statusText response @ '' - '' @ ?data"
  have g: "generate h c e prompt options = Inl ?msg"
    using assms by (simp add: generate_def generate_try_def ok_def Let_def)
  have 1: "str_includes ?msg ?code"
    using str_includes_append [of "?head @ ?name @ ?mid" ?code
        "'' '' @ statusText response @ '' - '' @ ?data"] by simp
  have 2: "str_includes ?msg (statusText response)"
    using str_includes_append [of "?head @ ?name @ ?mid @ ?code @ '' ''"
        "statusText response" "'' - '' @ ?data"] by simp
  have 3: "str_includes ?msg ?data"
    using str_includes_append [of "?head @ ?name @ ?mid @ ?code @ '' '' @ statusText response @ '' - ''"
        ?data "[]"] by simp
  have 4: "str_includes ?msg ?name"
    using str_includes_append [of ?head ?name
        "?mid @ ?code @ '' '' @ statusText response @ '' - '' @ ?data"] by simp
  from g 1 2 3 4 show ?thesis by blast
qed

text \<open>On a 429 with the body \<^verbatim>\<open>{"error":{"message":"rate limited"}}\<close> the message
  contains \<^verbatim>\<open>429\<close>, \<^verbatim>\<open>rate limited\<close> and the name of the service type.\<close>

theorem C5_error_message_on_failure_status_witness:
  "fetch (example_host (Resolved rate_limited)) (fetchCall (example_client MockGenerator) [] ''hello'' None)
      = Resolved rate_limited
   \<and> \<not> (200 \<le> status rate_limited \<and> status rate_limited \<le> 299)
   \<and> (\<exists>msg. generate (example_host (Resolved rate_limited)) (example_client MockGenerator) [] ''hello'' None = Inl msg
         \<and> str_includes msg ''429'' \<and> str_includes msg ''rate limited''
         \<and> str_includes msg ''mockGenerator'')"
proof -
  let ?h = "example_host (Resolved rate_limited)"
  have f: "fetch ?h (fetchCall (example_client MockGenerator) [] ''hello'' None) = Resolved rate_limited"
    by (simp add: example_host_def answer_with_def)
  have s: "\<not> (200 \<le> status rate_limited \<and> status rate_limited \<le> 299)"
    by (simp add: rate_limited_def)
  have code: "show_nat (status rate_limited) = ''429''"
    by (simp add: rate_limited_def digit_char_def)
  have name: "serviceTypeName (serviceType (example_client MockGenerator)) = ''mockGenerator''"
    by (simp add: example_client_def)
  have inner: "str_includes (JSON_stringify (number_text ?h)
                 (case json_result rate_limited of Inl t \<Rightarrow> JObject [] | Inr j \<Rightarrow> j)) ''rate limited''"
    by (simp add: rate_limited_def json_quote_def json_escape_def)
  from C5_error_message_on_failure_status [OF f s] obtain msg where
    m: "generate ?h (example_client MockGenerator) [] ''hello'' None = Inl msg"
    and 1: "str_includes msg (show_nat (status rate_limited))"
    and 3: "str_includes msg (JSON_stringify (number_text ?h)
                 (case json_result rate_limited of Inl t \<Rightarrow> JObject [] | Inr j \<Rightarrow> j))"
    and 4: "str_includes msg (serviceTypeName (serviceType (example_client MockGenerator)))"
    by blast
  from 3 inner have "str_includes msg ''rate limited''" by (rule str_includes_trans)
  with m 1 4 code name f s show ?thesis by auto
qed

section \<open>Success status\<close>

lemma first_content_array:
  assumes "map_of kvs ''choices'' = Some (JArray cs)"
  shows "first_content h (JObject kvs) =
     Inr (case optional_member (optional_member (indexed_property (JArray cs) 0) ''message'') ''content'' of
            Some j \<Rightarrow> if truthy h (Some j) then j else JString []
          | None \<Rightarrow> JString [])"
  using assms by (simp add: first_content_def Let_def split: option.splits)

lemma generate_success:
  assumes "fetch h (fetchCall c e prompt options) = Resolved response"
    and "200 \<le> status response \<and> status response \<le> 299"
    and "json_result response = Inr data"
  shows "generate h c e prompt options =
           (case first_content h data of
              Inr v \<Rightarrow> Inr v
            | Inl error \<Rightarrow>
                Inl (''Failed to generate with '' @ serviceTypeName (serviceType c) @ '': ''
                  @ (case error of ErrorObject message \<Rightarrow> message | OtherValue \<Rightarrow> ''Unknown error'')))"
  using assms by (simp add: generate_def generate_try_def ok_def)

text \<open>
  Claim C6, as stated: a successful response whose \<^verbatim>\<open>choices\<close> array is absent yields
  the empty string. It fails: on a 200 response with the body \<^verbatim>\<open>{}\<close>, reading
  \<^verbatim>\<open>data.choices[0]\<close> throws, and \<^verbatim>\<open>generate\<close> fails with the wrapped message.
\<close>

theorem C6_absent_choices_is_an_error:
  "generate
     (example_host (Resolved \<lparr> status = 200, statusText = ''OK'', json_result = Inr (JObject []) \<rparr>))
     \<lparr> config = \<lparr> apiKey = ''k'', baseURL = ''https://openrouter.ai/api/v1'',
                  OpenRouterConfig.model = ''anthropic/claude-3.5-sonnet'' \<rparr>,
       serviceType = Custom \<rparr>
     [] ''hello'' None
   = Inl (''Failed to generate with custom: '' @ v8_type_error Undefined ''0'')
   \<and> generate
     (example_host (Resolved \<lparr> status = 200, statusText = ''OK'', json_result = Inr (JObject []) \<rparr>))
     \<lparr> config = \<lparr> apiKey = ''k'', baseURL = ''https://openrouter.ai/api/v1'',
                  OpenRouterConfig.model = ''anthropic/claude-3.5-sonnet'' \<rparr>,
       serviceType = Custom \<rparr>
     [] ''hello'' None
   \<noteq> Inr (JString [])"
  by (simp add: generate_def generate_try_def ok_def example_host_def answer_with_def
        first_content_def digit_char_def)

lemma absent_choices_fails:
  assumes "fetch h (fetchCall c e prompt options) = Resolved response"
    and "200 \<le> status response \<and> status response \<le> 299"
    and "json_result response = Inr (JObject kvs)"
    and "map_of kvs ''choices'' = None"
  shows "generate h c e prompt options =
           Inl (''Failed to generate with '' @ serviceTypeName (serviceType c) @ '': ''
                @ type_error_text h Undefined ''0'')"
  using assms(4) unfolding generate_success [OF assms(1-3)]
  by (simp add: first_content_def digit_char_def)

text \<open>
  Claim C6, amended: on a successful response whose body is an object with a
  \<^verbatim>\<open>choices\<close> array, \<^verbatim>\<open>generate\<close> reads only \<^verbatim>\<open>choices[0].message.content\<close>:
  it returns that value when it is truthy and the empty string otherwise, and never an
  error. In particular it returns the empty string when the array is empty, when its
  first element has no \<^verbatim>\<open>message\<close> and when that message has no \<^verbatim>\<open>content\<close>, and
  it returns the content when that is a string.
\<close>

theorem C6_reads_first_choice_content:
  assumes "fetch h (fetchCall c e prompt options) = Resolved response"
    and "200 \<le> status response \<and> status response \<le> 299"
    and "json_result response = Inr (JObject kvs)"
    and "map_of kvs ''choices'' = Some (JArray cs)"
  shows
    "generate h c e prompt options =
       Inr (case optional_member
                   (optional_member (indexed_property (JArray cs) 0) ''message'') ''content'' of
              Some j \<Rightarrow> if truthy h (Some j) then j else JString []
            | None \<Rightarrow> JString [])
     \<and> (cs = [] \<longrightarrow> generate h c e prompt options = Inr (JString []))
     \<and> (cs = first # rest \<and> optional_member (Some first) ''message'' = None \<longrightarrow>
          generate h c e prompt options = Inr (JString []))
     \<and> (cs = first # rest \<and> optional_member (Some first) ''message'' = Some m
          \<and> optional_member (Some m) ''content'' = None \<longrightarrow>
          generate h c e prompt options = Inr (JString []))
     \<and> (cs = JObject fkvs # rest \<and> map_of fkvs ''message'' = Some (JObject mkvs)
          \<and> map_of mkvs ''content'' = Some j \<longrightarrow>
          generate h c e prompt options = Inr (if truthy h (Some j) then j else JString []))
     \<and> (cs = JObject fkvs # rest \<and> map_of fkvs ''message'' = Some (JObject mkvs)
          \<and> map_of mkvs ''content'' = Some (JString s) \<longrightarrow>
          generate h c e prompt options = Inr (JString s))"
proof -
  have g: "generate h c e prompt options =
       Inr (case optional_member
                   (optional_member (indexed_property (JArray cs) 0) ''message'') ''content'' of
              Some j \<Rightarrow> if truthy h (Some j) then j else JString []
            | None \<Rightarrow> JString [])"
    by (simp add: generate_success [OF assms(1-3)] first_content_array [OF assms(4)])
  show ?thesis
    unfolding g by auto
qed

theorem C6_reads_first_choice_content_witness:
  "generate (example_host (Resolved empty_choices)) (example_client Custom) [] ''hello'' None
       = Inr (JString [])
   \<and> generate (example_host (Resolved hello_response)) (example_client Custom) [] ''hello'' None
       = Inr (JString ''Hello'')"
proof -
  have e1: "fetch (example_host (Resolved empty_choices))
              (fetchCall (example_client Custom) [] ''hello'' None) = Resolved empty_choices"
    by (simp add: example_host_def answer_with_def)
  have e2: "200 \<le> status empty_choices \<and> status empty_choices \<le> 299"
    by (simp add: empty_choices_def)
  have e3: "json_result empty_choices = Inr (JObject [(''choices'', JArray [])])"
    by (simp add: empty_choices_def)
  have e4: "map_of [(''choices'', JArray [])] ''choices'' = Some (JArray ([] :: int json list))"
    by simp
  have empty: "generate (example_host (Resolved empty_choices)) (example_client Custom) []
                 ''hello'' None = Inr (JString [])"
    using C6_reads_first_choice_content [OF e1 e2 e3 e4] by blast
  let ?message = "[(''role'', JString ''assistant''), (''content'', JString ''Hello'')]"
  let ?first = "[(''message'', JObject ?message)]"
  have h1: "fetch (example_host (Resolved hello_response))
              (fetchCall (example_client Custom) [] ''hello'' None) = Resolved hello_response"
    by (simp add: example_host_def answer_with_def)
  have h2: "200 \<le> status hello_response \<and> status hello_response \<le> 299"
    by (simp add: hello_response_def)
  have h3: "json_result hello_response
              = Inr (JObject [(''choices'', JArray [JObject ?first])])"
    by (simp add: hello_response_def)
  have h4: "map_of [(''choices'', JArray [JObject ?first])] ''choices''
              = Some (JArray [JObject ?first :: int json])"
    by simp
  have h5: "[JObject ?first :: int json] = JObject ?first # []
            \<and> map_of ?first ''message'' = Some (JObject ?message :: int json)
            \<and> map_of ?message ''content'' = Some (JString ''Hello'' :: int json)"
    by simp
  have hello: "generate (example_host (Resolved hello_response)) (example_client Custom) []
                 ''hello'' None = Inr (JString ''Hello'')"
    using C6_reads_first_choice_content [OF h1 h2 h3 h4, where fkvs = ?first and rest = "[]"
        and mkvs = ?message and s = "''Hello''"] h5
    by blast
  from empty hello show ?thesis by (rule conjI)
qed

section \<open>The copy that getConfig returns\<close>

lemma write_field_other: "r \<noteq> a \<Longrightarrow> objects (write_field s r w) a = objects s a"
  by (cases w) simp_all

lemma write_fields_other: "r \<noteq> a \<Longrightarrow> objects (write_fields s r ws) a = objects s a"
  by (induction ws arbitrary: s) (simp_all add: write_field_other)

text \<open>
  Claim C7: \<^verbatim>\<open>getConfig\<close> returns a new object with the fields of the client's
  configuration; whatever the caller then assigns to the fields of the returned object,
  the configuration that the client holds, and with it every later \<^verbatim>\<open>generate\<close>,
  is unchanged.
\<close>

theorem C7_getConfig_returns_copy:
  assumes "config_at this < next_ref s" and "getConfig s this = (s', r)"
  shows "objects s' r = objects s (config_at this)
    \<and> fields_of (write_fields s' r ws) this = fields_of s this
    \<and> generate h (fields_of (write_fields s' r ws) this) e prompt options
           = generate h (fields_of s this) e prompt options"
proof -
  from assms(2) have r: "r = next_ref s"
    and s': "s' = s\<lparr> objects := (objects s)(next_ref s := objects s (config_at this)), next_ref := Suc (next_ref s) \<rparr>"
    by (auto simp: getConfig_def allocate_def)
  from r assms(1) have ne: "r \<noteq> config_at this" by simp
  have copy: "objects s' r = objects s (config_at this)" by (simp add: r s')
  have "objects (write_fields s' r ws) (config_at this) = objects s' (config_at this)"
    using ne by (rule write_fields_other)
  also have "\<dots> = objects s (config_at this)" using ne by (simp add: s' r)
  finally have f: "fields_of (write_fields s' r ws) this = fields_of s this"
    by (simp add: fields_of_def)
  from copy f show ?thesis by simp
qed

theorem C7_getConfig_returns_copy_witness:
  "config_at (new_client 0 Translation) < next_ref example_store
   \<and> getConfig example_store (new_client 0 Translation)
        = (fst (getConfig example_store (new_client 0 Translation)), 1)
   \<and> fields_of
        (write_fields (fst (getConfig example_store (new_client 0 Translation))) 1
           [WriteApiKey ''other-key'', WriteBaseURL ''http://localhost:1'', WriteModel ''openai/gpt-4''])
        (new_client 0 Translation)
      = fields_of example_store (new_client 0 Translation)
   \<and> apiKey (objects
        (write_fields (fst (getConfig example_store (new_client 0 Translation))) 1
           [WriteApiKey ''other-key'', WriteBaseURL ''http://localhost:1'', WriteModel ''openai/gpt-4'']) 1)
      = ''other-key''"
proof -
  have 1: "config_at (new_client 0 Translation) < next_ref example_store"
    by (simp add: new_client_def example_store_def)
  have 2: "getConfig example_store (new_client 0 Translation)
        = (fst (getConfig example_store (new_client 0 Translation)), 1)"
    by (simp add: getConfig_def allocate_def example_store_def)
  have 3: "apiKey (objects
        (write_fields (fst (getConfig example_store (new_client 0 Translation))) 1
           [WriteApiKey ''other-key'', WriteBaseURL ''http://localhost:1'', WriteModel ''openai/gpt-4'']) 1)
      = ''other-key''"
    by (simp add: getConfig_def allocate_def example_store_def)
  have 4: "fields_of
        (write_fields (fst (getConfig example_store (new_client 0 Translation))) 1
           [WriteApiKey ''other-key'', WriteBaseURL ''http://localhost:1'', WriteModel ''openai/gpt-4''])
        (new_client 0 Translation)
      = fields_of example_store (new_client 0 Translation)"
    using C7_getConfig_returns_copy [OF 1 2] by (rule conjunct1 [OF conjunct2])
  from 1 2 3 4 show ?thesis by (intro conjI)
qed

section \<open>The default configuration\<close>

text \<open>
  Claim C8, as stated: the \<^verbatim>\<open>baseURL\<close> of the default configuration reflects a
  base-URL environment variable when that variable is set. It fails: with
  \<^verbatim>\<open>OPENROUTER_BASE_URL\<close> set, the default configuration still has the fixed URL.
\<close>

theorem C8_base_url_variable_is_ignored:
  "getenv [(''OPENROUTER_API_KEY'', ''sk-or-1''), (''OPENROUTER_BASE_URL'', ''http://localhost:8080/v1'')]
      ''OPENROUTER_BASE_URL'' = Some ''http://localhost:8080/v1''
   \<and> baseURL (getDefaultConfig
        [(''OPENROUTER_API_KEY'', ''sk-or-1''), (''OPENROUTER_BASE_URL'', ''http://localhost:8080/v1'')])
       = ''https://openrouter.ai/api/v1''
   \<and> baseURL (getDefaultConfig
        [(''OPENROUTER_API_KEY'', ''sk-or-1''), (''OPENROUTER_BASE_URL'', ''http://localhost:8080/v1'')])
       \<noteq> ''http://localhost:8080/v1''"
  by (simp add: getDefaultConfig_def getenv_def)

text \<open>
  Claim C8, amended: the default configuration is assembled from the environment and
  fixed fallbacks and cannot fail; its \<^verbatim>\<open>apiKey\<close> is the value of
  \<^verbatim>\<open>OPENROUTER_API_KEY\<close> when set and empty otherwise, its \<^verbatim>\<open>model\<close> is the value of
  \<^verbatim>\<open>OPENROUTER_DEFAULT_MODEL\<close> when set and not empty and
  \<^verbatim>\<open>anthropic/claude-3.5-sonnet\<close> otherwise, and its \<^verbatim>\<open>baseURL\<close> is always
  \<^verbatim>\<open>https://openrouter.ai/api/v1\<close>: no base-URL variable is read.
\<close>

theorem C8_default_config_from_env:
  "baseURL (getDefaultConfig e) = ''https://openrouter.ai/api/v1''
   \<and> (getenv e ''OPENROUTER_API_KEY'' = Some k \<longrightarrow> apiKey (getDefaultConfig e) = k)
   \<and> (getenv e ''OPENROUTER_API_KEY'' = None \<longrightarrow> apiKey (getDefaultConfig e) = [])
   \<and> (getenv e ''OPENROUTER_DEFAULT_MODEL'' = Some m \<and> m \<noteq> [] \<longrightarrow>
        OpenRouterConfig.model (getDefaultConfig e) = m)
   \<and> (getenv e ''OPENROUTER_DEFAULT_MODEL'' = None \<or> getenv e ''OPENROUTER_DEFAULT_MODEL'' = Some [] \<longrightarrow>
        OpenRouterConfig.model (getDefaultConfig e) = ''anthropic/claude-3.5-sonnet'')"
  by (auto simp add: getDefaultConfig_def)

theorem C8_default_config_from_env_witness:
  "getDefaultConfig [(''OPENROUTER_API_KEY'', ''sk-or-1''), (''OPENROUTER_DEFAULT_MODEL'', ''openai/gpt-4'')]
     = \<lparr> apiKey = ''sk-or-1'', baseURL = ''https://openrouter.ai/api/v1'',
         OpenRouterConfig.model = ''openai/gpt-4'' \<rparr>
   \<and> getDefaultConfig []
     = \<lparr> apiKey = [], baseURL = ''https://openrouter.ai/api/v1'',
         OpenRouterConfig.model = ''anthropic/claude-3.5-sonnet'' \<rparr>"
proof -
  let ?e = "[(''OPENROUTER_API_KEY'', ''sk-or-1''), (''OPENROUTER_DEFAULT_MODEL'', ''openai/gpt-4'')]"
  have a: "getenv ?e ''OPENROUTER_API_KEY'' = Some ''sk-or-1''"
    and b: "getenv ?e ''OPENROUTER_DEFAULT_MODEL'' = Some ''openai/gpt-4'' \<and> ''openai/gpt-4'' \<noteq> []"
    and c: "getenv [] ''OPENROUTER_API_KEY'' = None"
    and d: "getenv [] ''OPENROUTER_DEFAULT_MODEL'' = None \<or> getenv [] ''OPENROUTER_DEFAULT_MODEL'' = Some []"
    by (simp_all add: getenv_def)
  have "getDefaultConfig ?e = \<lparr> apiKey = apiKey (getDefaultConfig ?e), baseURL = baseURL (getDefaultConfig ?e),
         OpenRouterConfig.model = OpenRouterConfig.model (getDefaultConfig ?e) \<rparr>" by simp
  moreover have "getDefaultConfig [] = \<lparr> apiKey = apiKey (getDefaultConfig []), baseURL = baseURL (getDefaultConfig []),
         OpenRouterConfig.model = OpenRouterConfig.model (getDefaultConfig []) \<rparr>" by simp
  ultimately show ?thesis
    using C8_default_config_from_env [where e = ?e and k = "''sk-or-1''" and m = "''openai/gpt-4''"] C8_default_config_from_env [where e = "[]"] a b c d
    by simp
qed

section \<open>Per-call overrides\<close>

text \<open>
  Claim C9: when \<^verbatim>\<open>options.maxTokens\<close> is unset, \<^verbatim>\<open>max_tokens\<close> of the wire request
  is the limit that the model-family table gives for the model of the environment and
  configuration chain (the substring match is on the result of
  \<^verbatim>\<open>getModelForService\<close>), adjusted by the service type; an explicit
  \<^verbatim>\<open>options.model\<close> has no influence on it.
\<close>

theorem C9_max_tokens_ignore_explicit_model:
  assumes "maxTokens os = None"
  shows
    "max_tokens (requestBody c e prompt (Some os)) =
       (let resolved = getModelForService c e;
            limits =
              (if str_includes resolved ''claude-3'' then (8000, 4000)
               else if str_includes resolved ''gpt-4'' then (6000, 3000)
               else if str_includes resolved ''gpt-3.5'' then (3000, 2000)
               else if str_includes resolved ''gemini'' then (7000, 3500)
               else (4000, 2000))
        in case serviceType c of
             MockGenerator \<Rightarrow> fst limits
           | CodeGenerator \<Rightarrow> of_int \<lfloor>fst limits * (3 / 4)\<rfloor>
           | Translation \<Rightarrow> of_int \<lfloor>snd limits * (3 / 4)\<rfloor>
           | Documentation \<Rightarrow> fst limits
           | Custom \<Rightarrow> snd limits)
     \<and> max_tokens (requestBody c e prompt (Some os)) = getMaxTokensForService c e
     \<and> max_tokens (requestBody c e prompt (Some (os\<lparr> GenerateOptions.model := explicit \<rparr>)))
         = max_tokens (requestBody c e prompt (Some os))"
  using assms
  by (simp add: requestBody_def Let_def opt_field_def getMaxTokensForService_def
        getTokenLimitByService_def split: ServiceType.splits)

theorem C9_max_tokens_ignore_explicit_model_witness:
  "APIRequest.model (requestBody (example_client Custom)
        [(''OPENROUTER_DEFAULT_MODEL'', ''openai/gpt-4'')] ''hello''
        (Some (no_options\<lparr> GenerateOptions.model := Some ''anthropic/claude-3-haiku'' \<rparr>)))
     = ''anthropic/claude-3-haiku''
   \<and> getModelForService (example_client Custom) [(''OPENROUTER_DEFAULT_MODEL'', ''openai/gpt-4'')]
     = ''openai/gpt-4''
   \<and> max_tokens (requestBody (example_client Custom)
        [(''OPENROUTER_DEFAULT_MODEL'', ''openai/gpt-4'')] ''hello''
        (Some (no_options\<lparr> GenerateOptions.model := Some ''anthropic/claude-3-haiku'' \<rparr>)))
     = 3000
   \<and> APIRequest.model (requestBody (example_client CodeGenerator) [] ''hello''
        (Some (no_options\<lparr> GenerateOptions.model := Some ''google/gemini-pro'' \<rparr>)))
     = ''google/gemini-pro''
   \<and> max_tokens (requestBody (example_client CodeGenerator) [] ''hello''
        (Some (no_options\<lparr> GenerateOptions.model := Some ''google/gemini-pro'' \<rparr>)))
     = 6000"
proof -
  let ?e = "[(''OPENROUTER_DEFAULT_MODEL'', ''openai/gpt-4'')]"
  let ?o1 = "no_options\<lparr> GenerateOptions.model := Some ''anthropic/claude-3-haiku'' \<rparr>"
  let ?o2 = "no_options\<lparr> GenerateOptions.model := Some ''google/gemini-pro'' \<rparr>"
  have n1: "maxTokens ?o1 = None" and n2: "maxTokens ?o2 = None"
    by (simp_all add: no_options_def)
  have m1: "getModelForService (example_client Custom) ?e = ''openai/gpt-4''"
    by (simp add: getModelForService_def getenv_def serviceModelKey_def example_client_def)
  have m2: "getModelForService (example_client CodeGenerator) [] = ''anthropic/claude-3.5-sonnet''"
    by (simp add: getModelForService_def getenv_def example_client_def)
  have s1: "serviceType (example_client Custom) = Custom"
    and s2: "serviceType (example_client CodeGenerator) = CodeGenerator"
    by (simp_all add: example_client_def)
  have r1: "APIRequest.model (requestBody (example_client Custom) ?e ''hello'' (Some ?o1))
              = ''anthropic/claude-3-haiku''"
    by (simp add: requestBody_def Let_def opt_field_def)
  have r2: "APIRequest.model (requestBody (example_client CodeGenerator) [] ''hello'' (Some ?o2))
              = ''google/gemini-pro''"
    by (simp add: requestBody_def Let_def opt_field_def)
  have t1: "max_tokens (requestBody (example_client Custom) ?e ''hello'' (Some ?o1)) = 3000"
    using C9_max_tokens_ignore_explicit_model [OF n1, of "example_client Custom" ?e "''hello''"]
    by (simp add: m1 s1)
  have t2: "max_tokens (requestBody (example_client CodeGenerator) [] ''hello'' (Some ?o2)) = 6000"
    using C9_max_tokens_ignore_explicit_model [OF n2, of "example_client CodeGenerator" "[]" "''hello''"]
    by (simp add: m2 s2)
  from r1 m1 t1 r2 t2 show ?thesis by (intro conjI)
qed

text \<open>
  Claim C10: \<^verbatim>\<open>options.model\<close> and \<^verbatim>\<open>options.systemPrompt\<close> are used when they are
  not empty; an empty one is ignored, like an unset one, and the default is used. Every
  \<^verbatim>\<open>options.temperature\<close> and \<^verbatim>\<open>options.maxTokens\<close> that is set is sent as given,
  zero included; only an unset one falls through to the resolver's default.
\<close>

theorem C10_falsy_overrides:
  "(GenerateOptions.model os = None \<or> GenerateOptions.model os = Some [] \<longrightarrow>
      APIRequest.model (requestBody c e prompt (Some os)) = getModelForService c e)
   \<and> (GenerateOptions.model os = Some m \<and> m \<noteq> [] \<longrightarrow>
      APIRequest.model (requestBody c e prompt (Some os)) = m)
   \<and> (systemPrompt os = None \<or> systemPrompt os = Some [] \<longrightarrow>
      messages (requestBody c e prompt (Some os)) =
        [\<lparr> role = System, content = getSystemPromptForService c (forceJson os) \<rparr>,
         \<lparr> role = User, content = prompt \<rparr>])
   \<and> (systemPrompt os = Some p \<and> p \<noteq> [] \<longrightarrow>
      messages (requestBody c e prompt (Some os)) =
        [\<lparr> role = System, content = p \<rparr>, \<lparr> role = User, content = prompt \<rparr>])
   \<and> (GenerateOptions.temperature os = Some t \<longrightarrow>
      APIRequest.temperature (requestBody c e prompt (Some os)) = t)
   \<and> (GenerateOptions.temperature os = Some 0 \<longrightarrow>
      APIRequest.temperature (requestBody c e prompt (Some os)) = 0)
   \<and> (GenerateOptions.temperature os = None \<longrightarrow>
      APIRequest.temperature (requestBody c e prompt (Some os)) = getTemperatureForService c)
   \<and> (maxTokens os = Some n \<longrightarrow> max_tokens (requestBody c e prompt (Some os)) = n)
   \<and> (maxTokens os = Some 0 \<longrightarrow> max_tokens (requestBody c e prompt (Some os)) = 0)
   \<and> (maxTokens os = None \<longrightarrow>
      max_tokens (requestBody c e prompt (Some os)) = getMaxTokensForService c e)
   \<and> APIRequest.model (requestBody c e prompt None) = getModelForService c e
   \<and> messages (requestBody c e prompt None) =
        [\<lparr> role = System, content = getSystemPromptForService c None \<rparr>,
         \<lparr> role = User, content = prompt \<rparr>]
   \<and> APIRequest.temperature (requestBody c e prompt None) = getTemperatureForService c
   \<and> max_tokens (requestBody c e prompt None) = getMaxTokensForService c e"
  by (auto simp add: requestBody_def Let_def opt_field_def)

theorem C10_falsy_overrides_witness:
  "requestBody (example_client Translation) [] ''hello''
      (Some \<lparr> systemPrompt = Some [], GenerateOptions.temperature = Some 0, maxTokens = Some 0,
              forceJson = None, GenerateOptions.model = Some [] \<rparr>)
     = \<lparr> APIRequest.model = ''anthropic/claude-3.5-sonnet'',
         messages = [\<lparr> role = System,
                       content = getSystemPromptForService (example_client Translation) None \<rparr>,
                     \<lparr> role = User, content = ''hello'' \<rparr>],
         APIRequest.temperature = 0, max_tokens = 0, response_format = None \<rparr>
   \<and> requestBody (example_client Translation) [] ''hello''
      (Some \<lparr> systemPrompt = Some ''Be brief.'', GenerateOptions.temperature = Some (5 / 2),
              maxTokens = Some (- 7), forceJson = None,
              GenerateOptions.model = Some ''mistral/mixtral'' \<rparr>)
     = \<lparr> APIRequest.model = ''mistral/mixtral'',
         messages = [\<lparr> role = System, content = ''Be brief.'' \<rparr>,
                     \<lparr> role = User, content = ''hello'' \<rparr>],
         APIRequest.temperature = 5 / 2, max_tokens = - 7, response_format = None \<rparr>
   \<and> APIRequest.temperature (requestBody (example_client Translation) [] ''hello''
        (Some no_options)) = 1 / 10
   \<and> max_tokens (requestBody (example_client Translation) [] ''hello'' (Some no_options)) = 3000"
proof -
  let ?c = "example_client Translation"
  let ?o1 = "\<lparr> systemPrompt = Some [], GenerateOptions.temperature = Some 0, maxTokens = Some 0,
              forceJson = None, GenerateOptions.model = Some [] \<rparr>"
  let ?o2 = "\<lparr> systemPrompt = Some ''Be brief.'', GenerateOptions.temperature = Some (5 / 2),
              maxTokens = Some (- 7), forceJson = None,
              GenerateOptions.model = Some ''mistral/mixtral'' \<rparr>"
  let ?r1 = "requestBody ?c [] ''hello'' (Some ?o1)"
  let ?r2 = "requestBody ?c [] ''hello'' (Some ?o2)"
  have m: "getModelForService ?c [] = ''anthropic/claude-3.5-sonnet''"
    by (simp add: getModelForService_def getenv_def example_client_def)
  have t: "getTemperatureForService ?c = 1 / 10"
    by (simp add: getTemperatureForService_def example_client_def)
  have k: "getMaxTokensForService ?c [] = 3000"
    by (simp add: getMaxTokensForService_def getModelForService_def getenv_def
          getTokenLimitByService_def example_client_def)
  have f1: "response_format ?r1 = None" and f2: "response_format ?r2 = None"
    by (simp_all add: requestBody_def Let_def opt_field_def)
  have r1: "?r1 = \<lparr> APIRequest.model = APIRequest.model ?r1, messages = messages ?r1,
      APIRequest.temperature = APIRequest.temperature ?r1, max_tokens = max_tokens ?r1,
      response_format = response_format ?r1 \<rparr>" by simp
  have r2: "?r2 = \<lparr> APIRequest.model = APIRequest.model ?r2, messages = messages ?r2,
      APIRequest.temperature = APIRequest.temperature ?r2, max_tokens = max_tokens ?r2,
      response_format = response_format ?r2 \<rparr>" by simp
  have a: "?r1 = \<lparr> APIRequest.model = ''anthropic/claude-3.5-sonnet'',
         messages = [\<lparr> role = System, content = getSystemPromptForService ?c None \<rparr>,
                     \<lparr> role = User, content = ''hello'' \<rparr>],
         APIRequest.temperature = 0, max_tokens = 0, response_format = None \<rparr>"
    using C10_falsy_overrides [where os = ?o1 and c = ?c and e = "[]" and prompt = "''hello''"
        and t = 0 and n = 0] m f1
    by (subst r1) simp
  have b: "?r2 = \<lparr> APIRequest.model = ''mistral/mixtral'',
         messages = [\<lparr> role = System, content = ''Be brief.'' \<rparr>,
                     \<lparr> role = User, content = ''hello'' \<rparr>],
         APIRequest.temperature = 5 / 2, max_tokens = - 7, response_format = None \<rparr>"
    using C10_falsy_overrides [where os = ?o2 and c = ?c and e = "[]" and prompt = "''hello''"
        and t = "5 / 2" and n = "- 7" and m = "''mistral/mixtral''" and p = "''Be brief.''"] f2
    by (subst r2) simp
  have d: "APIRequest.temperature (requestBody ?c [] ''hello'' (Some no_options)) = 1 / 10
     \<and> max_tokens (requestBody ?c [] ''hello'' (Some no_options)) = 3000"
    using C10_falsy_overrides [where os = no_options and c = ?c and e = "[]"
        and prompt = "''hello''"] t k
    by (simp add: no_options_def)
  from a b d show ?thesis by (intro conjI) simp_all
qed

end
